theory Spec2Isabelle
  imports Main "HOL-Library.AList"
begin

section \<open>Strings of the host language\<close>

text \<open>
  A script, an application name and every other text value of the program is a
  JavaScript string. The embedding reads a \<^typ>\<open>string\<close> as the sequence of its code
  units, one \<^typ>\<open>char\<close> per code unit, for code units in the range 0..255 (ASCII and the
  Latin-1 supplement); \<open>length\<close> is then JavaScript's \<open>.length\<close>. Text with code units
  above 255 is outside the embedding.
\<close>

abbreviation backslash :: char where "backslash \<equiv> CHR 0x5C"
abbreviation dquote :: char where "dquote \<equiv> CHR 0x22"
abbreviation squote :: char where "squote \<equiv> CHR 0x27"
abbreviation newline :: char where "newline \<equiv> CHR 0x0A"

text \<open>
  \<open>input.replace(/c/g, r)\<close> for a pattern that is one literal character: every
  occurrence of the character, left to right, is replaced by the text \<open>r\<close> (none of
  the replacement texts of the program contains a dollar sign, so no replacement
  pattern is expanded).
\<close>

fun replaceAll :: "char \<Rightarrow> string \<Rightarrow> string \<Rightarrow> string" where
  "replaceAll c r [] = []"
| "replaceAll c r (x # xs) = (if x = c then r @ replaceAll c r xs else x # replaceAll c r xs)"

subsection \<open>shared/utils.ts\<close>

text \<open>
  \<^verbatim>\<open>return input.replace(/\\/g, '\\\\').replace(/"/g, '\\"');\<close>
\<close>

definition escapeAppleScriptString :: "string \<Rightarrow> string" where
  "escapeAppleScriptString input =
     replaceAll dquote [backslash, dquote] (replaceAll backslash [backslash, backslash] input)"

text \<open>
  \<open>priorityToAppleScript\<close> looks the priority up in a table and falls back to 0
  (\<open>priorityMap[priority] ?? 0\<close>); \<open>appleScriptToPriority\<close> decodes by thresholds.
\<close>

definition priorityMap :: "(string \<times> int) list" where
  "priorityMap = [(''none'', 0), (''low'', 1), (''medium'', 5), (''high'', 9)]"

definition priorityToAppleScript :: "string \<Rightarrow> int" where
  "priorityToAppleScript priority =
     (case map_of priorityMap priority of Some v \<Rightarrow> v | None \<Rightarrow> 0)"

definition appleScriptToPriority :: "int \<Rightarrow> string" where
  "appleScriptToPriority v =
     (if v \<ge> 9 then ''high''
      else if v \<ge> 5 then ''medium''
      else if v \<ge> 1 then ''low''
      else ''none'')"

subsection \<open>executor/validator.ts: sanitizeForAppleScript\<close>

text \<open>
  \<^verbatim>\<open>return input.replace(/\\/g, '\\\\').replace(/"/g, '\\"').replace(/\n/g, '\\n');\<close>
\<close>

definition sanitizeForAppleScript :: "string \<Rightarrow> string" where
  "sanitizeForAppleScript input =
     replaceAll newline [backslash, CHR ''n'']
       (replaceAll dquote [backslash, dquote]
         (replaceAll backslash [backslash, backslash] input))"

subsection \<open>The escaping rule as the specification words it\<close>

text \<open>
  What the specification asks of one character: a backslash becomes two backslashes,
  a double quote becomes backslash-quote, anything else stays. \<open>sanitizeEach\<close> adds the
  newline rule of the multi-line variant.
\<close>

definition escapeEach :: "char \<Rightarrow> string" where
  "escapeEach c =
     (if c = backslash then [backslash, backslash]
      else if c = dquote then [backslash, dquote]
      else [c])"

definition sanitizeEach :: "char \<Rightarrow> string" where
  "sanitizeEach c =
     (if c = backslash then [backslash, backslash]
      else if c = dquote then [backslash, dquote]
      else if c = newline then [backslash, CHR ''n'']
      else [c])"

definition scenarioE_title :: string where
  \<open>scenarioE_title = ''Task with "quotes" and '' @ [backslash] @ ''backslash''\<close>

definition scenarioE_escaped :: string where
  \<open>scenarioE_escaped =
     ''Task with '' @ [backslash] @ ''"quotes'' @ [backslash] @ ''" and ''
       @ [backslash, backslash] @ ''backslash''\<close>

section \<open>String primitives used by the validator\<close>

text \<open>
  \<open>String.prototype.trim\<close> removes white space and line terminators from both ends,
  and the class \<open>\s\<close> of a regular expression is the same set: in the range of the
  embedding these are TAB, LF, VT, FF, CR, SPACE and NBSP.
\<close>

definition isWhitespace :: "char \<Rightarrow> bool" where
  "isWhitespace c =
     (c \<in> set [CHR 0x09, CHR 0x0A, CHR 0x0B, CHR 0x0C, CHR 0x0D, CHR 0x20, CHR 0xA0])"

definition trimStart :: "string \<Rightarrow> string" where
  "trimStart s = dropWhile isWhitespace s"

definition trimEnd :: "string \<Rightarrow> string" where
  "trimEnd s = rev (dropWhile isWhitespace (rev s))"

definition trim :: "string \<Rightarrow> string" where
  "trim s = trimEnd (trimStart s)"

text \<open>
  The letters of the embedding's range that have two cases: A..Z and the upper-case
  letters of the Latin-1 supplement (0xC0..0xDE without the multiplication sign 0xD7),
  and, position by position, their lower-case forms 32 code units further up.
\<close>

definition upperCaseLetters :: string where
  "upperCaseLetters =
     ''ABCDEFGHIJKLMNOPQRSTUVWXYZ'' @
       [
        CHR 0xC0, CHR 0xC1, CHR 0xC2, CHR 0xC3, CHR 0xC4, CHR 0xC5, CHR 0xC6, CHR 0xC7,
        CHR 0xC8, CHR 0xC9, CHR 0xCA, CHR 0xCB, CHR 0xCC, CHR 0xCD, CHR 0xCE, CHR 0xCF,
        CHR 0xD0, CHR 0xD1, CHR 0xD2, CHR 0xD3, CHR 0xD4, CHR 0xD5, CHR 0xD6, CHR 0xD8,
        CHR 0xD9, CHR 0xDA, CHR 0xDB, CHR 0xDC, CHR 0xDD, CHR 0xDE]"

definition lowerCaseLetters :: string where
  "lowerCaseLetters =
     ''abcdefghijklmnopqrstuvwxyz'' @
       [
        CHR 0xE0, CHR 0xE1, CHR 0xE2, CHR 0xE3, CHR 0xE4, CHR 0xE5, CHR 0xE6, CHR 0xE7,
        CHR 0xE8, CHR 0xE9, CHR 0xEA, CHR 0xEB, CHR 0xEC, CHR 0xED, CHR 0xEE, CHR 0xEF,
        CHR 0xF0, CHR 0xF1, CHR 0xF2, CHR 0xF3, CHR 0xF4, CHR 0xF5, CHR 0xF6, CHR 0xF8,
        CHR 0xF9, CHR 0xFA, CHR 0xFB, CHR 0xFC, CHR 0xFD, CHR 0xFE]"

text \<open>
  \<open>String.prototype.toLowerCase\<close> on the code units of the embedding: an upper-case
  letter is replaced by its lower-case form; every other code unit stays.
\<close>

definition toLowerCaseChar :: "char \<Rightarrow> char" where
  "toLowerCaseChar c =
     (case map_of (zip upperCaseLetters lowerCaseLetters) c of Some l \<Rightarrow> l | None \<Rightarrow> c)"

definition toLowerCase :: "string \<Rightarrow> string" where
  "toLowerCase s = map toLowerCaseChar s"

fun startsWith :: "string \<Rightarrow> string \<Rightarrow> bool" where
  "startsWith s [] = True"
| "startsWith [] (p # ps) = False"
| "startsWith (c # cs) (p # ps) = (c = p \<and> startsWith cs ps)"

text \<open>\<open>s.includes(p)\<close>: the text \<open>p\<close> starts at some position of \<open>s\<close>.\<close>

fun stringIncludes :: "string \<Rightarrow> string \<Rightarrow> bool" where
  "stringIncludes [] p = (p = [])"
| "stringIncludes (c # cs) p = (startsWith (c # cs) p \<or> stringIncludes cs p)"

text \<open>
  \<open>Array.prototype.includes\<close> on an array of strings compares with strict equality.
\<close>

fun arrayIncludes :: "string list \<Rightarrow> string \<Rightarrow> bool" where
  "arrayIncludes [] x = False"
| "arrayIncludes (y # ys) x = (if y = x then True else arrayIncludes ys x)"

text \<open>
  A number interpolated into a template literal is printed in decimal. The numbers
  printed by the program are a length and a timeout in milliseconds; the embedding
  takes them as integers (of magnitude below \<open>10^21\<close>, where JavaScript still prints
  every digit).
\<close>

text \<open>\<open>digitChar\<close> is applied to a digit (a number below 10) only.\<close>

definition digitChar :: "nat \<Rightarrow> char" where
  "digitChar d = ''0123456789'' ! d"

fun showNat :: "nat \<Rightarrow> string" where
  "showNat n = (if n < 10 then [digitChar n] else showNat (n div 10) @ [digitChar (n mod 10)])"

declare showNat.simps [simp del]

definition showNumber :: "int \<Rightarrow> string" where
  "showNumber i = (if i < 0 then CHR ''-'' # showNat (nat (- i)) else showNat (nat i))"

section \<open>shared/errors.ts\<close>

text \<open>
  An error object of the program carries its class name, a message, a machine-readable
  code and an optional \<open>details\<close> object. An object is the list of its properties in
  insertion order.
\<close>

datatype detail = Str string | Num int | StrList "string list"

type_synonym obj = "(string \<times> detail) list"

record MacOSMCPError =
  name :: string
  message :: string
  code :: string
  details :: "obj option"

text \<open>
  \<open>{ ...details }\<close>: the properties of \<open>details\<close> are assigned in order onto the
  object built so far; an existing key keeps its place and takes the new value, and
  spreading \<open>undefined\<close> adds nothing.
\<close>

definition spread :: "obj \<Rightarrow> obj option \<Rightarrow> obj" where
  "spread base extra =
     (case extra of None \<Rightarrow> base
      | Some props \<Rightarrow> foldl (\<lambda>acc kv. AList.update (fst kv) (snd kv) acc) base props)"

definition SecurityError :: "string \<Rightarrow> obj option \<Rightarrow> MacOSMCPError" where
  "SecurityError msg det =
     \<lparr>name = ''SecurityError'', message = msg, code = ''SECURITY_VIOLATION'', details = det\<rparr>"

definition PermissionError :: "string \<Rightarrow> obj option \<Rightarrow> MacOSMCPError" where
  \<open>PermissionError a det =
     \<lparr>name = ''PermissionError'',
      message = ''Permission denied for "'' @ a
        @ ''". Please grant access in System Settings > Privacy & Security > Automation'',
      code = ''PERMISSION_DENIED'',
      details = Some (spread [(''app'', Str a)] det)\<rparr>\<close>

definition AppNotFoundError :: "string \<Rightarrow> obj option \<Rightarrow> MacOSMCPError" where
  \<open>AppNotFoundError a det =
     \<lparr>name = ''AppNotFoundError'',
      message = ''Application not found: "'' @ a @ ''". Please ensure it is installed.'',
      code = ''APP_NOT_FOUND'',
      details = Some (spread [(''app'', Str a)] det)\<rparr>\<close>

definition ExecutionTimeoutError :: "int \<Rightarrow> obj option \<Rightarrow> MacOSMCPError" where
  "ExecutionTimeoutError t det =
     \<lparr>name = ''ExecutionTimeoutError'',
      message = ''Script execution timed out after '' @ showNumber t @ ''ms'',
      code = ''EXECUTION_TIMEOUT'',
      details = Some (spread [(''timeout'', Num t)] det)\<rparr>"

definition ScriptExecutionError :: "string \<Rightarrow> obj option \<Rightarrow> MacOSMCPError" where
  "ScriptExecutionError msg det =
     \<lparr>name = ''ScriptExecutionError'', message = msg, code = ''SCRIPT_EXECUTION_ERROR'',
      details = det\<rparr>"

fun someIncluded :: "string \<Rightarrow> string list \<Rightarrow> bool" where
  "someIncluded lowerMessage [] = False"
| "someIncluded lowerMessage (keyword # keywords) =
     (if stringIncludes lowerMessage keyword then True else someIncluded lowerMessage keywords)"

definition permissionKeywords :: "string list" where
  "permissionKeywords =
     [''not allowed'', ''authorization'', ''not authorized'', ''permission denied'',
      ''access denied'', ''not permitted'']"

definition isPermissionError :: "string \<Rightarrow> bool" where
  "isPermissionError errorMessage = someIncluded (toLowerCase errorMessage) permissionKeywords"

definition notFoundKeywords :: "string list" where
  "notFoundKeywords =
     [''application isn't running'', ''application is not running'',
      ''can't get application'', ''no application'']"

definition isAppNotFoundError :: "string \<Rightarrow> bool" where
  "isAppNotFoundError errorMessage = someIncluded (toLowerCase errorMessage) notFoundKeywords"

section \<open>executor/types.ts\<close>

definition ALLOWED_APPS :: "string list" where
  "ALLOWED_APPS =
     [''Reminders'', ''Calendar'', ''Notes'', ''Mail'', ''Messages'', ''Safari'', ''Music'',
      ''Photos'', ''Shortcuts'', ''Contacts'', ''Finder'']"

definition FORBIDDEN_PATTERNS :: "string list" where
  "FORBIDDEN_PATTERNS =
     [''do shell script'', ''sudo'', ''rm -rf'', ''delete file'', ''delete folder'',
      ''System Events'', ''keystroke'', ''key code'', ''administrator privileges'',
      ''with administrator'', ''curl'', ''wget'', ''python'', ''ruby'', ''perl'', ''bash'',
      ''zsh'', ''sh -c'']"

record ExecutionContext =
  script :: string
  app :: string
  operation :: string
  timeout :: "int option"
  skipValidation :: "bool option"

section \<open>executor/validator.ts\<close>

subsection \<open>The two regular expressions\<close>

text \<open>
  The validator uses \<^verbatim>\<open>/tell\s+application\s+["']([^"']+)["']/gi\<close> and
  \<^verbatim>\<open>/^tell\s+application\s+["']/i\<close>. Both are sequences of pieces, and each piece is
  matched here by a function that consumes it from the front of the remaining text and
  returns what is left, or \<open>None\<close> when the piece does not match.

  With the flag \<open>i\<close> (and no flag \<open>u\<close>) two characters match when their canonical
  forms agree; the canonical form is the upper-case character, except that a
  character outside ASCII never takes an ASCII canonical form. In the range of the
  embedding, a..z and the lower-case letters of the Latin-1 supplement take their
  upper-case form (the two letters whose upper case lies above 255 are never equal to
  a letter of the patterns and stay).
\<close>

definition canonicalize :: "char \<Rightarrow> char" where
  "canonicalize c =
     (case map_of (zip lowerCaseLetters upperCaseLetters) c of Some u \<Rightarrow> u | None \<Rightarrow> c)"

fun matchLiteralCI :: "string \<Rightarrow> string \<Rightarrow> string option" where
  "matchLiteralCI [] s = Some s"
| "matchLiteralCI (p # ps) [] = None"
| "matchLiteralCI (p # ps) (c # cs) =
     (if canonicalize c = canonicalize p then matchLiteralCI ps cs else None)"

text \<open>
  \<open>\s+\<close> is greedy; the piece after it is a letter or a quote, which is not white
  space, so giving back white space never helps and the only candidate is the whole
  run.
\<close>

fun matchSpaces :: "string \<Rightarrow> string option" where
  "matchSpaces [] = None"
| "matchSpaces (c # cs) = (if isWhitespace c then Some (dropWhile isWhitespace cs) else None)"

definition isQuote :: "char \<Rightarrow> bool" where
  "isQuote c = (c = dquote \<or> c = squote)"

fun matchQuote :: "string \<Rightarrow> string option" where
  "matchQuote [] = None"
| "matchQuote (c # cs) = (if isQuote c then Some cs else None)"

text \<open>
  \<open>([^"']+)["']\<close>: the group takes the longest run without a quote, which must not
  be empty, and a quote must follow it (a shorter run would be followed by a
  character of the run, which is not a quote). The opening and the closing quote need
  not be the same character.
\<close>

definition matchName :: "string \<Rightarrow> (string \<times> string) option" where
  "matchName s =
     (let captured = takeWhile (\<lambda>c. \<not> isQuote c) s;
          rest = dropWhile (\<lambda>c. \<not> isQuote c) s
      in if captured = [] then None
         else (case matchQuote rest of None \<Rightarrow> None | Some rest' \<Rightarrow> Some (captured, rest')))"

definition matchTellPrefix :: "string \<Rightarrow> string option" where
  "matchTellPrefix s =
     (case matchLiteralCI ''tell'' s of None \<Rightarrow> None
      | Some s1 \<Rightarrow>
     (case matchSpaces s1 of None \<Rightarrow> None
      | Some s2 \<Rightarrow>
     (case matchLiteralCI ''application'' s2 of None \<Rightarrow> None
      | Some s3 \<Rightarrow>
     (case matchSpaces s3 of None \<Rightarrow> None
      | Some s4 \<Rightarrow> matchQuote s4))))"

text \<open>
  One attempt of \<open>tellPattern\<close> at the front of \<open>s\<close>: the captured group 1 and the
  text after the match.
\<close>

definition execTellPattern :: "string \<Rightarrow> (string \<times> string) option" where
  "execTellPattern s =
     (case matchTellPrefix s of None \<Rightarrow> None | Some s5 \<Rightarrow> matchName s5)"

text \<open>
  \<open>script.matchAll(tellPattern)\<close>: the pattern is tried at each position from left to
  right; after a match the search goes on at the end of the match (a match is never
  empty), otherwise one character further. The result is the list of the captured
  groups, in order.
\<close>

function matchAllTell :: "string \<Rightarrow> string list" where
  "matchAllTell [] = []"
| "matchAllTell (c # cs) =
     (case execTellPattern (c # cs) of
        Some (captured, rest) \<Rightarrow> captured # matchAllTell rest
      | None \<Rightarrow> matchAllTell cs)"
  by pat_completeness auto
termination
proof (relation "measure length")
  show "wf (measure length)" by simp
next
  fix c :: char and cs :: string
  show "(cs, c # cs) \<in> measure length" by simp
next
  fix c :: char and cs :: string and x2 :: "string \<times> string" and captured rest :: string
  assume ex: "execTellPattern (c # cs) = Some x2" and x2: "(captured, rest) = x2"
  have lit: "matchLiteralCI p s = Some r \<Longrightarrow> length r \<le> length s" for p s r
    by (induction p s rule: matchLiteralCI.induct) (auto split: if_splits)
  have sp: "matchSpaces s = Some r \<Longrightarrow> length r \<le> length s" for s r
    by (cases s) (auto split: if_splits intro: le_trans [OF length_dropWhile_le])
  have qu: "matchQuote s = Some r \<Longrightarrow> length r < length s" for s r
    by (cases s) (auto split: if_splits)
  have pre: "matchTellPrefix s = Some r \<Longrightarrow> length r < length s" for s r
    unfolding matchTellPrefix_def
    by (auto split: option.splits dest!: lit sp qu)
  have nm: "matchName s = Some (a, r) \<Longrightarrow> length r \<le> length s" for s a r
    unfolding matchName_def Let_def
    by (auto split: if_splits option.splits dest!: qu
             intro: less_imp_le [OF less_le_trans [OF _ length_dropWhile_le]])
  from ex x2 have "length rest < length (c # cs)"
    unfolding execTellPattern_def
    by (auto split: option.splits dest!: pre nm)
  then show "(rest, c # cs) \<in> measure length" by simp
qed

subsection \<open>The checks\<close>

definition isAllowedApp :: "string \<Rightarrow> bool" where
  "isAllowedApp a = arrayIncludes ALLOWED_APPS a"

text \<open>
  The loop of \<open>scriptTargetsApp\<close> over the matches, returning at the first match whose
  group equals the target in lower case (\<open>declaredApp && ...\<close>: an empty group is
  falsy).
\<close>

fun anyMatchTargets :: "string list \<Rightarrow> string \<Rightarrow> bool" where
  "anyMatchTargets [] targetApp = False"
| "anyMatchTargets (declaredApp # matches) targetApp =
     (if declaredApp \<noteq> [] \<and> toLowerCase declaredApp = toLowerCase targetApp then True
      else anyMatchTargets matches targetApp)"

definition scriptTargetsApp :: "string \<Rightarrow> string \<Rightarrow> bool" where
  "scriptTargetsApp scr targetApp = anyMatchTargets (matchAllTell scr) targetApp"

fun firstIncluded :: "string \<Rightarrow> string list \<Rightarrow> string option" where
  "firstIncluded lowerScript [] = None"
| "firstIncluded lowerScript (pattern # patterns) =
     (if stringIncludes lowerScript (toLowerCase pattern) then Some pattern
      else firstIncluded lowerScript patterns)"

definition findForbiddenPattern :: "string \<Rightarrow> string option" where
  "findForbiddenPattern scr = firstIncluded (toLowerCase scr) FORBIDDEN_PATTERNS"

definition startsWithTellApplication :: "string \<Rightarrow> bool" where
  "startsWithTellApplication scr = (matchTellPrefix (trim scr) \<noteq> None)"

text \<open>The truthiness test on a value that is a string or \<open>null\<close>: the empty string is falsy.\<close>

definition truthyString :: "string option \<Rightarrow> string option" where
  "truthyString v = (case v of None \<Rightarrow> None | Some s \<Rightarrow> if s = [] then None else Some s)"

definition maxLength :: nat where
  "maxLength = 50000"

text \<open>
  \<open>validateScript\<close> returns nothing or throws: the result is \<open>Inr ()\<close> or \<open>Inl\<close> of the
  error thrown. The six layers are tried in the order of the source.
\<close>

definition validateScript :: "string \<Rightarrow> string \<Rightarrow> MacOSMCPError + unit" where
  \<open>validateScript scr targetApp =
     (if scr = [] \<or> length (trim scr) = 0 then
        Inl (SecurityError ''Script cannot be empty'' None)
      else if length scr > maxLength then
        Inl (SecurityError
              (''Script exceeds maximum length of '' @ showNumber (int maxLength) @ '' characters'')
              (Some [(''actualLength'', Num (int (length scr)))]))
      else if \<not> isAllowedApp targetApp then
        Inl (SecurityError
              (''Application "'' @ targetApp @ ''" is not in the allowed list'')
              (Some [(''app'', Str targetApp), (''allowedApps'', StrList ALLOWED_APPS)]))
      else if \<not> scriptTargetsApp scr targetApp then
        Inl (SecurityError
              (''Script does not target the declared application "'' @ targetApp @ ''"'')
              (Some [(''app'', Str targetApp)]))
      else
        (case truthyString (findForbiddenPattern scr) of
           Some forbiddenMatch \<Rightarrow>
             Inl (SecurityError
                   (''Script contains forbidden pattern: "'' @ forbiddenMatch @ ''"'')
                   (Some [(''pattern'', Str forbiddenMatch), (''app'', Str targetApp)]))
         | None \<Rightarrow>
             if \<not> startsWithTellApplication scr then
               Inl (SecurityError ''Script must start with "tell application" statement''
                     (Some [(''app'', Str targetApp)]))
             else Inr ()))\<close>

section \<open>executor/executor.ts\<close>

text \<open>
  What a \<open>try\<close> block can catch: an error object of the program, another \<open>Error\<close>
  (with its message), or a value that is no \<open>Error\<close> (given by its \<open>String(...)\<close>
  rendering).
\<close>

datatype thrown = McpError MacOSMCPError | JsError string | NonError string

text \<open>\<open>error instanceof Error ? error.message : String(error)\<close>\<close>

definition errorMessageOf :: "thrown \<Rightarrow> string" where
  "errorMessageOf e =
     (case e of McpError m \<Rightarrow> message m | JsError msg \<Rightarrow> msg | NonError rendered \<Rightarrow> rendered)"

text \<open>
  The promise returned by the script engine, seen from the race that \<open>timeout\<close> sets
  up against a timer: by the time the timer fires the promise has been fulfilled, has
  been rejected, or is still pending. Which of the three happens is decided by the
  host, not by the program.
\<close>

datatype 'a promise = Fulfilled 'a | Rejected thrown | Pending

text \<open>
  \<open>timeout(promise, ms, errorMessage)\<close> of shared/utils.ts: \<open>Promise.race\<close> of the
  promise and a timer rejecting with \<open>new Error(errorMessage ?? `Timeout after ${ms}ms`)\<close>.
  The result is what the awaiting caller sees: the value, or the thrown error.
\<close>

definition timeout_fn :: "'a promise \<Rightarrow> int \<Rightarrow> string option \<Rightarrow> thrown + 'a" where
  "timeout_fn p ms errorMessage =
     (case p of
        Fulfilled v \<Rightarrow> Inr v
      | Rejected e \<Rightarrow> Inl e
      | Pending \<Rightarrow>
          Inl (JsError (case errorMessage of
                          Some m \<Rightarrow> m
                        | None \<Rightarrow> ''Timeout after '' @ showNumber ms @ ''ms'')))"

definition DEFAULT_TIMEOUT :: int where
  "DEFAULT_TIMEOUT = 30000"

text \<open>
  The host of one call: the script engine (\<open>runAppleScript\<close> of the package
  run-applescript) and the wall-clock time \<open>Date.now() - startTime\<close> read when a
  failure is caught. Calls of the logger write to the error stream only and are left
  out.
\<close>

record host =
  runAppleScript :: "string \<Rightarrow> string promise"
  elapsed :: int

text \<open>
  The \<open>catch\<close> block of \<open>executeScript\<close>: an error of the program is thrown again as it
  is; any other failure is classified by its message.
\<close>

definition executeScript_catch ::
  "ExecutionContext \<Rightarrow> int \<Rightarrow> int \<Rightarrow> thrown \<Rightarrow> MacOSMCPError" where
  "executeScript_catch ctx scriptTimeout duration error =
     (case error of
        McpError e \<Rightarrow> e
      | _ \<Rightarrow>
          (let errorMessage = errorMessageOf error
           in if stringIncludes errorMessage ''timed out'' \<or> stringIncludes errorMessage ''Timeout''
              then ExecutionTimeoutError scriptTimeout
                     (Some [(''app'', Str (app ctx)), (''operation'', Str (operation ctx))])
              else if isPermissionError errorMessage
              then PermissionError (app ctx)
                     (Some [(''operation'', Str (operation ctx)),
                            (''originalError'', Str errorMessage)])
              else if isAppNotFoundError errorMessage
              then AppNotFoundError (app ctx)
                     (Some [(''operation'', Str (operation ctx)),
                            (''originalError'', Str errorMessage)])
              else ScriptExecutionError errorMessage
                     (Some [(''app'', Str (app ctx)), (''operation'', Str (operation ctx)),
                            (''duration'', Num duration)])))"

text \<open>
  \<open>executeScript\<close>. The state threaded through is the list of the scripts handed to
  the engine so far, oldest first: \<open>runAppleScript(ctx.script)\<close> appends to it. The
  result is the output of the script (\<open>Inr\<close>) or the error thrown to the caller
  (\<open>Inl\<close>). \<open>ctx.timeout ?? DEFAULT_TIMEOUT\<close> takes the default only for an absent
  timeout, and \<open>!ctx.skipValidation\<close> holds for an absent flag and for \<open>false\<close>.
\<close>

definition executeScript ::
  "host \<Rightarrow> ExecutionContext \<Rightarrow> string list \<Rightarrow> (MacOSMCPError + string) \<times> string list" where
  "executeScript h ctx spawned =
     (let scriptTimeout = (case timeout ctx of Some t \<Rightarrow> t | None \<Rightarrow> DEFAULT_TIMEOUT);
          validated = (if skipValidation ctx \<noteq> Some True
                       then validateScript (script ctx) (app ctx) else Inr ())
      in case validated of
           Inl e \<Rightarrow> (Inl (executeScript_catch ctx scriptTimeout (elapsed h) (McpError e)), spawned)
         | Inr _ \<Rightarrow>
             (case timeout_fn (runAppleScript h (script ctx)) scriptTimeout
                     (Some (''Script execution timed out after '' @ showNumber scriptTimeout @ ''ms''))
              of
                Inr result \<Rightarrow> (Inr result, spawned @ [script ctx])
              | Inl error \<Rightarrow>
                  (Inl (executeScript_catch ctx scriptTimeout (elapsed h) error),
                   spawned @ [script ctx])))"

text \<open>The probe script of \<open>isAppRunning\<close>, a template literal trimmed at both ends.\<close>

definition isAppRunningScript :: "string \<Rightarrow> string" where
  \<open>isAppRunningScript appName =
     trim (''\<newline>tell application "System Events"\<newline>  return (name of processes) contains "''
           @ appName @ ''"\<newline>end tell\<newline>  '')\<close>

definition isAppRunning :: "host \<Rightarrow> string \<Rightarrow> string list \<Rightarrow> bool \<times> string list" where
  "isAppRunning h appName spawned =
     (case executeScript h
             \<lparr>script = isAppRunningScript appName, app = ''System Events'',
              operation = ''check_running'', timeout = Some 5000, skipValidation = Some True\<rparr>
             spawned
      of
        (Inr result, spawned') \<Rightarrow> (trim result = ''true'', spawned')
      | (Inl e, spawned') \<Rightarrow> (False, spawned'))"

section \<open>apps/notes/scripts.ts\<close>

record CreateNoteParams =
  title :: string
  body :: string
  folder :: string

definition generateCreateNoteScript :: "CreateNoteParams \<Rightarrow> string" where
  \<open>generateCreateNoteScript params =
     (let sanitizedTitle = escapeAppleScriptString (title params);
          sanitizedBody = escapeAppleScriptString (body params);
          sanitizedFolder = escapeAppleScriptString (folder params);
          fullContent = ''<h1>'' @ sanitizedTitle @ ''</h1><div>'' @ sanitizedBody @ ''</div>''
      in trim (''\<newline>tell application "Notes"\<newline>    set targetFolder to folder "''
               @ sanitizedFolder
               @ ''"\<newline>    set newNote to make new note at targetFolder with properties {body:"''
               @ fullContent
               @ ''"}\<newline>    return id of newNote & "|" & name of newNote & "|" & name of targetFolder\<newline>end tell\<newline>  ''))\<close>

section \<open>Scenarios\<close>

text \<open>
  Scenario B: a shell command inside a block that targets the declared application.
  Scenario C: the only opening clause names Calendar while Reminders is declared.
\<close>

definition scenarioB_script :: string where
  \<open>scenarioB_script =
     ''\<newline>tell application "Reminders"\<newline>    do shell script "rm -rf /"\<newline>end tell\<newline>      ''\<close>

definition scenarioC_script :: string where
  \<open>scenarioC_script =
     ''\<newline>tell application "Calendar"\<newline>    -- do something\<newline>end tell\<newline>      ''\<close>

text \<open>
  A script that breaks the self-consistency check, the forbidden-pattern scan and the
  structural-start check at once.
\<close>

definition shortCircuit_script :: string where
  \<open>shortCircuit_script = ''do shell script "sudo rm -rf /"''\<close>

text \<open>A script whose opening clause is not at the start.\<close>

definition lateTell_script :: string where
  \<open>lateTell_script = ''-- list\<newline>tell application "Notes"\<newline>end tell''\<close>

section \<open>Hosts and requests used as examples\<close>

text \<open>
  A host whose engine answers at once, and one whose engine is still running when the
  timer fires. A request whose script fails validation, and Scenario D: a valid script
  run with a timeout of 5 milliseconds.
\<close>

definition idleHost :: host where
  "idleHost = \<lparr>runAppleScript = (\<lambda>s. Fulfilled ''ok''), elapsed = 0\<rparr>"

definition hangingHost :: host where
  "hangingHost = \<lparr>runAppleScript = (\<lambda>s. Pending), elapsed = 0\<rparr>"

definition rejected_ctx :: ExecutionContext where
  "rejected_ctx =
     \<lparr>script = ''set x to 5'', app = ''Reminders'', operation = ''add_reminder'',
      timeout = None, skipValidation = None\<rparr>"

definition scenarioD_ctx :: ExecutionContext where
  \<open>scenarioD_ctx =
     \<lparr>script = ''tell application "Notes"'', app = ''Notes'', operation = ''list_notes'',
      timeout = Some 5, skipValidation = None\<rparr>\<close>

text \<open>A host whose engine fails, and a note whose body has two lines.\<close>

definition failingHost :: host where
  "failingHost = \<lparr>runAppleScript = (\<lambda>s. Rejected (JsError ''execution error'')), elapsed = 7\<rparr>"

definition multiline_note :: CreateNoteParams where
  "multiline_note = \<lparr>title = ''Plan'', body = ''Line 1\<newline>Line 2'', folder = ''Notes''\<rparr>"

text \<open>
  A script that begins with the prefix tested by the structural-start check, but with
  no complete opening clause: the name between the quotes is empty.
\<close>

definition emptyName_script :: string where
  \<open>emptyName_script = ''tell application "" tell application "Notes"''\<close>

section \<open>Escaping\<close>

lemma replaceAll_append:
  "replaceAll c r (xs @ ys) = replaceAll c r xs @ replaceAll c r ys"
  by (induction xs) simp_all

lemma escapeAppleScriptString_Cons:
  "escapeAppleScriptString (c # cs) = escapeEach c @ escapeAppleScriptString cs"
  by (simp add: escapeAppleScriptString_def escapeEach_def)

lemma sanitizeForAppleScript_Cons:
  "sanitizeForAppleScript (c # cs) = sanitizeEach c @ sanitizeForAppleScript cs"
  by (simp add: sanitizeForAppleScript_def sanitizeEach_def)

lemma escapeAppleScriptString_pointwise:
  "escapeAppleScriptString s = concat (map escapeEach s)"
proof (induction s)
  case Nil
  show ?case by (simp add: escapeAppleScriptString_def)
next
  case (Cons c cs)
  then show ?case by (simp add: escapeAppleScriptString_Cons)
qed

lemma sanitizeForAppleScript_pointwise:
  "sanitizeForAppleScript s = concat (map sanitizeEach s)"
proof (induction s)
  case Nil
  show ?case by (simp add: sanitizeForAppleScript_def)
next
  case (Cons c cs)
  then show ?case by (simp add: sanitizeForAppleScript_Cons)
qed

text \<open>
  Claim C7. Both escaping functions act character by character: each backslash of
  the input becomes two backslashes and each double quote becomes backslash-quote,
  and no substitution rewrites what another one inserted (the result is the
  concatenation of the per-character images). The title of Scenario E,
  \<^verbatim>\<open>Task with "quotes" and \backslash\<close>, is mapped by both to
  \<^verbatim>\<open>Task with \"quotes\" and \\backslash\<close>.
\<close>

theorem escaping_backslash_then_quote:
  "escapeAppleScriptString s = concat (map escapeEach s)
   \<and> sanitizeForAppleScript s = concat (map sanitizeEach s)
   \<and> escapeAppleScriptString scenarioE_title = scenarioE_escaped
   \<and> sanitizeForAppleScript scenarioE_title = scenarioE_escaped"
proof -
  have "escapeAppleScriptString scenarioE_title = scenarioE_escaped"
    by (simp add: escapeAppleScriptString_def scenarioE_title_def scenarioE_escaped_def)
  moreover have "sanitizeForAppleScript scenarioE_title = scenarioE_escaped"
    by (simp add: sanitizeForAppleScript_def scenarioE_title_def scenarioE_escaped_def)
  ultimately show ?thesis
    using escapeAppleScriptString_pointwise sanitizeForAppleScript_pointwise by simp
qed

theorem escaping_backslash_then_quote_witness:
  "escapeAppleScriptString [dquote, backslash] = [backslash, dquote, backslash, backslash]
   \<and> sanitizeForAppleScript [backslash, newline] = [backslash, backslash, backslash, CHR ''n'']"
  using escaping_backslash_then_quote [of "[dquote, backslash]"]
    escaping_backslash_then_quote [of "[backslash, newline]"]
  by (simp add: escapeEach_def sanitizeEach_def)

section \<open>Priority encoding\<close>

text \<open>
  Claim C10. For each of the four priorities, decoding the numeric code that
  \<open>priorityToAppleScript\<close> assigns gives the priority back; the codes are
  none 0, low 1, medium 5, high 9.
\<close>

theorem priority_roundtrip:
  assumes "p \<in> {''none'', ''low'', ''medium'', ''high''}"
  shows "appleScriptToPriority (priorityToAppleScript p) = p
         \<and> map priorityToAppleScript [''none'', ''low'', ''medium'', ''high''] = [0, 1, 5, 9]"
  using assms
  by (auto simp: appleScriptToPriority_def priorityToAppleScript_def priorityMap_def)

theorem priority_roundtrip_witness:
  "''medium'' \<in> {''none'', ''low'', ''medium'', ''high''}
   \<and> priorityToAppleScript ''medium'' = 5
   \<and> appleScriptToPriority (priorityToAppleScript ''medium'') = ''medium''"
proof -
  have h: "''medium'' \<in> {''none'', ''low'', ''medium'', ''high''}" by simp
  from priority_roundtrip [OF h] show ?thesis
    by (simp add: priorityToAppleScript_def priorityMap_def)
qed

section \<open>Facts about the string primitives and the layers of the validator\<close>

lemma startsWith_iff: "startsWith s p \<longleftrightarrow> (\<exists>b. s = p @ b)"
  by (induction s p rule: startsWith.induct) auto

lemma stringIncludes_iff: "stringIncludes s p \<longleftrightarrow> (\<exists>a b. s = a @ p @ b)"
proof (induction s)
  case Nil
  show ?case by simp
next
  case (Cons c cs)
  have "(\<exists>a b. c # cs = a @ p @ b) \<longleftrightarrow> (\<exists>b. c # cs = p @ b) \<or> (\<exists>a b. cs = a @ p @ b)"
  proof
    assume "\<exists>a b. c # cs = a @ p @ b"
    then obtain a b where ab: "c # cs = a @ p @ b" by blast
    show "(\<exists>b. c # cs = p @ b) \<or> (\<exists>a b. cs = a @ p @ b)"
    proof (cases a)
      case Nil
      with ab show ?thesis by auto
    next
      case (Cons x a')
      with ab have "cs = a' @ p @ b" by simp
      then show ?thesis by blast
    qed
  next
    assume "(\<exists>b. c # cs = p @ b) \<or> (\<exists>a b. cs = a @ p @ b)"
    then show "\<exists>a b. c # cs = a @ p @ b"
    proof
      assume "\<exists>b. c # cs = p @ b"
      then obtain b where "c # cs = [] @ p @ b" by auto
      then show ?thesis by blast
    next
      assume "\<exists>a b. cs = a @ p @ b"
      then obtain a b where "c # cs = (c # a) @ p @ b" by auto
      then show ?thesis by blast
    qed
  qed
  with Cons show ?case by (simp add: startsWith_iff)
qed

lemma stringIncludes_middle: "stringIncludes (a @ p @ b) p"
  using stringIncludes_iff by blast

lemma arrayIncludes_iff: "arrayIncludes ys x \<longleftrightarrow> x \<in> set ys"
  by (induction ys) auto

lemma anyMatchTargets_iff:
  "anyMatchTargets ms t \<longleftrightarrow> (\<exists>d\<in>set ms. d \<noteq> [] \<and> toLowerCase d = toLowerCase t)"
  by (induction ms) auto

lemma firstIncluded_None_iff:
  "firstIncluded s ps = None \<longleftrightarrow> (\<forall>q\<in>set ps. \<not> stringIncludes s (toLowerCase q))"
  by (induction ps) auto

lemma firstIncluded_Some_split:
  "firstIncluded s ps = Some p \<Longrightarrow>
     \<exists>earlier later. ps = earlier @ p # later \<and> stringIncludes s (toLowerCase p)
        \<and> (\<forall>q\<in>set earlier. \<not> stringIncludes s (toLowerCase q))"
proof (induction ps)
  case Nil
  then show ?case by simp
next
  case (Cons x xs)
  show ?case
  proof (cases "stringIncludes s (toLowerCase x)")
    case True
    with Cons.prems have "x = p" by simp
    with True have "x # xs = [] @ p # xs \<and> stringIncludes s (toLowerCase p)
        \<and> (\<forall>q\<in>set []. \<not> stringIncludes s (toLowerCase q))" by simp
    then show ?thesis by blast
  next
    case False
    with Cons.prems have "firstIncluded s xs = Some p" by simp
    from Cons.IH [OF this] obtain earlier later where
      "xs = earlier @ p # later" "stringIncludes s (toLowerCase p)"
      "\<forall>q\<in>set earlier. \<not> stringIncludes s (toLowerCase q)" by blast
    with False have "x # xs = (x # earlier) @ p # later \<and> stringIncludes s (toLowerCase p)
        \<and> (\<forall>q\<in>set (x # earlier). \<not> stringIncludes s (toLowerCase q))" by simp
    then show ?thesis by blast
  qed
qed

lemma toLowerCase_eq_Nil: "toLowerCase s = [] \<longleftrightarrow> s = []"
  by (simp add: toLowerCase_def)

lemma trim_Nil: "trim [] = []"
  by (simp add: trim_def trimStart_def trimEnd_def)

lemma validateScript_empty:
  "trim scr = [] \<Longrightarrow> validateScript scr targetApp = Inl (SecurityError ''Script cannot be empty'' None)"
  by (simp add: validateScript_def)

lemma validateScript_tooLong:
  "trim scr \<noteq> [] \<Longrightarrow> length scr > maxLength \<Longrightarrow>
   validateScript scr targetApp =
     Inl (SecurityError
           (''Script exceeds maximum length of '' @ showNumber (int maxLength) @ '' characters'')
           (Some [(''actualLength'', Num (int (length scr)))]))"
  by (auto simp: validateScript_def trim_Nil)

lemma validateScript_notAllowed:
  \<open>trim scr \<noteq> [] \<Longrightarrow> length scr \<le> maxLength \<Longrightarrow> \<not> isAllowedApp targetApp \<Longrightarrow>
   validateScript scr targetApp =
     Inl (SecurityError
           (''Application "'' @ targetApp @ ''" is not in the allowed list'')
           (Some [(''app'', Str targetApp), (''allowedApps'', StrList ALLOWED_APPS)]))\<close>
  by (auto simp: validateScript_def trim_Nil)

lemma validateScript_mismatch:
  \<open>trim scr \<noteq> [] \<Longrightarrow> length scr \<le> maxLength \<Longrightarrow> isAllowedApp targetApp \<Longrightarrow>
   \<not> scriptTargetsApp scr targetApp \<Longrightarrow>
   validateScript scr targetApp =
     Inl (SecurityError
           (''Script does not target the declared application "'' @ targetApp @ ''"'')
           (Some [(''app'', Str targetApp)]))\<close>
  by (auto simp: validateScript_def trim_Nil)

lemma validateScript_forbidden:
  \<open>trim scr \<noteq> [] \<Longrightarrow> length scr \<le> maxLength \<Longrightarrow> isAllowedApp targetApp \<Longrightarrow>
   scriptTargetsApp scr targetApp \<Longrightarrow> findForbiddenPattern scr = Some p \<Longrightarrow> p \<noteq> [] \<Longrightarrow>
   validateScript scr targetApp =
     Inl (SecurityError
           (''Script contains forbidden pattern: "'' @ p @ ''"'')
           (Some [(''pattern'', Str p), (''app'', Str targetApp)]))\<close>
  by (auto simp: validateScript_def trim_Nil truthyString_def)

lemma validateScript_noStart:
  \<open>trim scr \<noteq> [] \<Longrightarrow> length scr \<le> maxLength \<Longrightarrow> isAllowedApp targetApp \<Longrightarrow>
   scriptTargetsApp scr targetApp \<Longrightarrow> findForbiddenPattern scr = None \<Longrightarrow>
   \<not> startsWithTellApplication scr \<Longrightarrow>
   validateScript scr targetApp =
     Inl (SecurityError ''Script must start with "tell application" statement''
           (Some [(''app'', Str targetApp)]))\<close>
  by (auto simp: validateScript_def trim_Nil truthyString_def)

lemma validateScript_accepts_iff:
  "validateScript scr targetApp = Inr () \<longleftrightarrow>
     trim scr \<noteq> [] \<and> length scr \<le> maxLength \<and> isAllowedApp targetApp
     \<and> scriptTargetsApp scr targetApp \<and> truthyString (findForbiddenPattern scr) = None
     \<and> startsWithTellApplication scr"
  by (auto simp: validateScript_def trim_Nil split: option.splits)

lemma forbidden_patterns_nonempty: "[] \<notin> set FORBIDDEN_PATTERNS"
  by (simp add: FORBIDDEN_PATTERNS_def)

lemma rejected_ctx_validation:
  \<open>validateScript ''set x to 5'' ''Reminders'' =
       Inl (SecurityError ''Script does not target the declared application "Reminders"''
             (Some [(''app'', Str ''Reminders'')]))\<close>
proof -
  have h1: "trim ''set x to 5'' \<noteq> []" by code_simp
  have h2: "length ''set x to 5'' \<le> maxLength" by (simp add: maxLength_def)
  have h3: "isAllowedApp ''Reminders''" by code_simp
  have h4: "\<not> scriptTargetsApp ''set x to 5'' ''Reminders''" by code_simp
  from validateScript_mismatch [OF h1 h2 h3 h4] show ?thesis by simp
qed

section \<open>Facts about the execution wrapper\<close>

lemma executeScript_rejected:
  "skipValidation ctx \<noteq> Some True \<Longrightarrow> validateScript (script ctx) (app ctx) = Inl e \<Longrightarrow>
   executeScript h ctx spawned = (Inl e, spawned)"
  by (simp add: executeScript_def executeScript_catch_def)

lemma executeScript_spawns:
  "skipValidation ctx = Some True \<or> validateScript (script ctx) (app ctx) = Inr () \<Longrightarrow>
   snd (executeScript h ctx spawned) = spawned @ [script ctx]"
  by (auto simp: executeScript_def Let_def split: sum.splits)

lemma timed_out_message:
  "stringIncludes (''Script execution timed out after '' @ showNumber t @ ''ms'') ''timed out''"
proof -
  have "''Script execution timed out after '' @ showNumber t @ ''ms''
        = ''Script execution '' @ ''timed out'' @ ('' after '' @ showNumber t @ ''ms'')"
    by simp
  then show ?thesis by (simp only: stringIncludes_middle)
qed

section \<open>The validator: forbidden patterns\<close>

text \<open>
  Claim C1. Let the declared application be in \<open>ALLOWED_APPS\<close> and the script be
  non-empty after trimming, at most 50000 characters long, and contain an opening
  clause (one of the matches of the repeated left-to-right search, \<open>matchAllTell\<close>)
  whose name equals the declared application in lower case. If some member of
  \<open>FORBIDDEN_PATTERNS\<close> occurs in the lower-cased script (in lower case itself), then
  \<open>validateScript\<close> throws the security error with the forbidden-pattern message and
  details, and the pattern reported is the first one, in the order of
  \<open>FORBIDDEN_PATTERNS\<close>, that occurs: no earlier pattern of the list occurs. In
  Scenario B the pattern reported is \<^verbatim>\<open>do shell script\<close>, although \<^verbatim>\<open>rm -rf\<close> occurs too.
\<close>

theorem forbidden_pattern_rejected:
  assumes allowed: "targetApp \<in> set ALLOWED_APPS"
    and nonempty: "trim scr \<noteq> []"
    and short: "length scr \<le> 50000"
    and targets: "\<exists>declared \<in> set (matchAllTell scr). toLowerCase declared = toLowerCase targetApp"
    and member: "pattern \<in> set FORBIDDEN_PATTERNS"
    and occurs: "\<exists>a b. toLowerCase scr = a @ toLowerCase pattern @ b"
  shows \<open>\<exists>earlier first later.
           FORBIDDEN_PATTERNS = earlier @ first # later
           \<and> (\<exists>a b. toLowerCase scr = a @ toLowerCase first @ b)
           \<and> (\<forall>q \<in> set earlier. \<not> (\<exists>a b. toLowerCase scr = a @ toLowerCase q @ b))
           \<and> validateScript scr targetApp =
               Inl (SecurityError
                     (''Script contains forbidden pattern: "'' @ first @ ''"'')
                     (Some [(''pattern'', Str first), (''app'', Str targetApp)]))\<close>
proof -
  from allowed have l3: "isAllowedApp targetApp"
    by (simp add: isAllowedApp_def arrayIncludes_iff)
  from allowed have "targetApp \<noteq> []"
    by (auto simp: ALLOWED_APPS_def)
  then have ne: "toLowerCase targetApp \<noteq> []"
    by (simp add: toLowerCase_eq_Nil)
  from targets obtain declared where "declared \<in> set (matchAllTell scr)"
    and "toLowerCase declared = toLowerCase targetApp" by blast
  moreover from this ne have "declared \<noteq> []"
    by (auto simp: toLowerCase_def)
  ultimately have l4: "scriptTargetsApp scr targetApp"
    unfolding scriptTargetsApp_def anyMatchTargets_iff by blast
  from member occurs have "firstIncluded (toLowerCase scr) FORBIDDEN_PATTERNS \<noteq> None"
    by (auto simp: firstIncluded_None_iff stringIncludes_iff)
  then obtain first where first: "findForbiddenPattern scr = Some first"
    by (auto simp: findForbiddenPattern_def)
  then obtain earlier later where split: "FORBIDDEN_PATTERNS = earlier @ first # later"
    and inc: "stringIncludes (toLowerCase scr) (toLowerCase first)"
    and before: "\<forall>q\<in>set earlier. \<not> stringIncludes (toLowerCase scr) (toLowerCase q)"
    using firstIncluded_Some_split [of "toLowerCase scr" FORBIDDEN_PATTERNS first]
    by (auto simp: findForbiddenPattern_def)
  have "first \<in> set (earlier @ first # later)" by simp
  with split have "first \<in> set FORBIDDEN_PATTERNS" by (simp only:)
  with forbidden_patterns_nonempty have "first \<noteq> []" by auto
  with nonempty short l3 l4 first
  have \<open>validateScript scr targetApp =
          Inl (SecurityError
                (''Script contains forbidden pattern: "'' @ first @ ''"'')
                (Some [(''pattern'', Str first), (''app'', Str targetApp)]))\<close>
    by (intro validateScript_forbidden) (simp_all add: maxLength_def)
  with split inc before show ?thesis
    unfolding stringIncludes_iff by blast
qed

lemma scenarioB_matches: "matchAllTell scenarioB_script = [''Reminders'']"
  unfolding scenarioB_script_def by code_simp

lemma scenarioB_trim: "trim scenarioB_script \<noteq> []"
  unfolding scenarioB_script_def by code_simp

lemma scenarioB_rm: "stringIncludes (toLowerCase scenarioB_script) (toLowerCase ''rm -rf'')"
  unfolding scenarioB_script_def by code_simp

lemma scenarioB_shell: "stringIncludes (toLowerCase scenarioB_script) (toLowerCase ''do shell script'')"
  unfolding scenarioB_script_def by code_simp

theorem forbidden_pattern_rejected_witness:
  \<open>validateScript scenarioB_script ''Reminders'' =
     Inl (SecurityError ''Script contains forbidden pattern: "do shell script"''
           (Some [(''pattern'', Str ''do shell script''), (''app'', Str ''Reminders'')]))\<close>
proof -
  have h1: "''Reminders'' \<in> set ALLOWED_APPS" by (simp add: ALLOWED_APPS_def)
  have h3: "length scenarioB_script \<le> 50000" by (simp add: scenarioB_script_def)
  have h4: "\<exists>declared \<in> set (matchAllTell scenarioB_script).
              toLowerCase declared = toLowerCase ''Reminders''"
    by (simp add: scenarioB_matches)
  have h5: "''rm -rf'' \<in> set FORBIDDEN_PATTERNS" by (simp add: FORBIDDEN_PATTERNS_def)
  have h6: "\<exists>a b. toLowerCase scenarioB_script = a @ toLowerCase ''rm -rf'' @ b"
    using scenarioB_rm by (simp only: stringIncludes_iff)
  from forbidden_pattern_rejected [OF h1 scenarioB_trim h3 h4 h5 h6]
  obtain earlier first later where
    split: "FORBIDDEN_PATTERNS = earlier @ first # later"
    and before: "\<forall>q \<in> set earlier. \<not> (\<exists>a b. toLowerCase scenarioB_script = a @ toLowerCase q @ b)"
    and res: \<open>validateScript scenarioB_script ''Reminders'' =
               Inl (SecurityError
                     (''Script contains forbidden pattern: "'' @ first @ ''"'')
                     (Some [(''pattern'', Str first), (''app'', Str ''Reminders'')]))\<close>
    by blast
  have shell: "\<exists>a b. toLowerCase scenarioB_script = a @ toLowerCase ''do shell script'' @ b"
    using scenarioB_shell by (simp only: stringIncludes_iff)
  have "earlier = []"
  proof (cases earlier)
    case Nil
    then show ?thesis .
  next
    case (Cons x xs)
    with split have "x = ''do shell script''" by (simp add: FORBIDDEN_PATTERNS_def)
    with Cons before shell show ?thesis by auto
  qed
  with split have "first = ''do shell script''" by (simp add: FORBIDDEN_PATTERNS_def)
  with res show ?thesis by simp
qed

section \<open>The validator: the allowed list\<close>

text \<open>
  Claim C3. For a script that is non-empty after trimming and at most 50000
  characters long, and a declared application that is not in \<open>ALLOWED_APPS\<close>,
  \<open>validateScript\<close> throws the security error saying that the application is not in
  the allowed list. Nothing is assumed about the self-consistency check, the
  forbidden-pattern scan or the structural-start check: the result is the same when
  the script breaks them too.
\<close>

theorem app_not_allowed_rejected:
  assumes "trim scr \<noteq> []"
    and "length scr \<le> 50000"
    and "targetApp \<notin> set ALLOWED_APPS"
  shows \<open>validateScript scr targetApp =
           Inl (SecurityError
                 (''Application "'' @ targetApp @ ''" is not in the allowed list'')
                 (Some [(''app'', Str targetApp), (''allowedApps'', StrList ALLOWED_APPS)]))\<close>
  using assms
  by (intro validateScript_notAllowed) (simp_all add: maxLength_def isAllowedApp_def arrayIncludes_iff)

lemma shortCircuit_later_layers:
  "\<not> scriptTargetsApp shortCircuit_script ''Terminal''
   \<and> findForbiddenPattern shortCircuit_script = Some ''do shell script''
   \<and> \<not> startsWithTellApplication shortCircuit_script"
  unfolding shortCircuit_script_def by code_simp

theorem app_not_allowed_rejected_witness:
  \<open>\<not> scriptTargetsApp shortCircuit_script ''Terminal''
   \<and> findForbiddenPattern shortCircuit_script = Some ''do shell script''
   \<and> \<not> startsWithTellApplication shortCircuit_script
   \<and> validateScript shortCircuit_script ''Terminal'' =
       Inl (SecurityError ''Application "Terminal" is not in the allowed list''
             (Some [(''app'', Str ''Terminal''), (''allowedApps'', StrList ALLOWED_APPS)]))\<close>
proof -
  have h1: "trim shortCircuit_script \<noteq> []"
    unfolding shortCircuit_script_def by code_simp
  have h2: "length shortCircuit_script \<le> 50000"
    by (simp add: shortCircuit_script_def)
  have h3: "''Terminal'' \<notin> set ALLOWED_APPS"
    by (simp add: ALLOWED_APPS_def)
  from app_not_allowed_rejected [OF h1 h2 h3] shortCircuit_later_layers
  show ?thesis by simp
qed

section \<open>The validator: self-consistency\<close>

text \<open>
  Claim C4. For a script that is non-empty after trimming and at most 50000
  characters long, and a declared application in \<open>ALLOWED_APPS\<close>: if none of the
  opening clauses found in the script by the repeated, case-insensitive match names
  the declared application (compared in lower case), then \<open>validateScript\<close> throws
  the security error saying that the script does not target the declared
  application. Scenario C, whose only opening clause names Calendar while Reminders
  is declared, is such a script.
\<close>

theorem app_mismatch_rejected:
  assumes "trim scr \<noteq> []"
    and "length scr \<le> 50000"
    and "targetApp \<in> set ALLOWED_APPS"
    and "\<forall>declared \<in> set (matchAllTell scr). toLowerCase declared \<noteq> toLowerCase targetApp"
  shows \<open>validateScript scr targetApp =
           Inl (SecurityError
                 (''Script does not target the declared application "'' @ targetApp @ ''"'')
                 (Some [(''app'', Str targetApp)]))\<close>
proof -
  from assms(4) have "\<not> scriptTargetsApp scr targetApp"
    unfolding scriptTargetsApp_def anyMatchTargets_iff by blast
  with assms(1-3) show ?thesis
    by (intro validateScript_mismatch) (simp_all add: maxLength_def isAllowedApp_def arrayIncludes_iff)
qed

lemma scenarioC_matches: "matchAllTell scenarioC_script = [''Calendar'']"
  unfolding scenarioC_script_def by code_simp

lemma lower_Calendar_Reminders: "toLowerCase ''Calendar'' \<noteq> toLowerCase ''Reminders''"
  by code_simp

theorem app_mismatch_rejected_witness:
  \<open>matchAllTell scenarioC_script = [''Calendar'']
   \<and> validateScript scenarioC_script ''Reminders'' =
       Inl (SecurityError ''Script does not target the declared application "Reminders"''
             (Some [(''app'', Str ''Reminders'')]))\<close>
proof -
  have h1: "trim scenarioC_script \<noteq> []"
    unfolding scenarioC_script_def by code_simp
  have h2: "length scenarioC_script \<le> 50000"
    by (simp add: scenarioC_script_def)
  have h3: "''Reminders'' \<in> set ALLOWED_APPS"
    by (simp add: ALLOWED_APPS_def)
  have h4: "\<forall>declared \<in> set (matchAllTell scenarioC_script).
              toLowerCase declared \<noteq> toLowerCase ''Reminders''"
    using lower_Calendar_Reminders by (simp add: scenarioC_matches)
  from app_mismatch_rejected [OF h1 h2 h3 h4] scenarioC_matches
  show ?thesis by simp
qed

section \<open>The validator: the structural-start check\<close>

lemma firstIncluded_find:
  "firstIncluded s ps = find (\<lambda>p. stringIncludes s (toLowerCase p)) ps"
  by (induction ps) simp_all

lemma maxLength_text: "showNumber (int maxLength) = ''50000''"
  by (simp add: maxLength_def showNumber_def showNat.simps digitChar_def)

lemma execTellPattern_prefix: "matchTellPrefix s = None \<Longrightarrow> execTellPattern s = None"
  by (simp add: execTellPattern_def)

text \<open>
  Claim C5, as amended. The structural-start check tests the trimmed script for the
  prefix of an opening clause: \<open>tell\<close>, white space, \<open>application\<close>, white space and a
  single or double quote, in any letter case. A script without this prefix begins
  with no opening clause, and \<open>validateScript\<close> rejects it for every declared
  application. The reason is that of the first layer that fails, in the fixed order:
  empty script; more than 50000 characters; declared application not in
  \<open>ALLOWED_APPS\<close>; no opening clause found in the script names the declared
  application; a forbidden pattern occurs (the first of \<open>FORBIDDEN_PATTERNS\<close> that
  does is reported); and, when these five layers pass, the structural-start reason.
\<close>

theorem structural_start_rejected:
  assumes nostart: "\<not> startsWithTellApplication scr"
  shows \<open>execTellPattern (trim scr) = None
         \<and> validateScript scr targetApp =
           Inl (if trim scr = [] then
                  SecurityError ''Script cannot be empty'' None
                else if 50000 < length scr then
                  SecurityError ''Script exceeds maximum length of 50000 characters''
                    (Some [(''actualLength'', Num (int (length scr)))])
                else if targetApp \<notin> set ALLOWED_APPS then
                  SecurityError (''Application "'' @ targetApp @ ''" is not in the allowed list'')
                    (Some [(''app'', Str targetApp), (''allowedApps'', StrList ALLOWED_APPS)])
                else if \<not> (\<exists>declared \<in> set (matchAllTell scr).
                               toLowerCase declared = toLowerCase targetApp) then
                  SecurityError
                    (''Script does not target the declared application "'' @ targetApp @ ''"'')
                    (Some [(''app'', Str targetApp)])
                else
                  (case find (\<lambda>p. stringIncludes (toLowerCase scr) (toLowerCase p))
                          FORBIDDEN_PATTERNS of
                     Some first \<Rightarrow>
                       SecurityError (''Script contains forbidden pattern: "'' @ first @ ''"'')
                         (Some [(''pattern'', Str first), (''app'', Str targetApp)])
                   | None \<Rightarrow>
                       SecurityError ''Script must start with "tell application" statement''
                         (Some [(''app'', Str targetApp)])))\<close>
proof
  from nostart show "execTellPattern (trim scr) = None"
    by (simp add: startsWithTellApplication_def execTellPattern_prefix)
next
  let ?occurs = "\<lambda>p. stringIncludes (toLowerCase scr) (toLowerCase p)"
  have ff: "findForbiddenPattern scr = find ?occurs FORBIDDEN_PATTERNS"
    by (simp add: findForbiddenPattern_def firstIncluded_find)
  consider (empty) "trim scr = []"
    | (long) "trim scr \<noteq> []" "maxLength < length scr"
    | (app) "trim scr \<noteq> []" "length scr \<le> maxLength" "targetApp \<notin> set ALLOWED_APPS"
    | (later) "trim scr \<noteq> []" "length scr \<le> maxLength" "targetApp \<in> set ALLOWED_APPS"
    by force
  then show \<open>validateScript scr targetApp =
           Inl (if trim scr = [] then
                  SecurityError ''Script cannot be empty'' None
                else if 50000 < length scr then
                  SecurityError ''Script exceeds maximum length of 50000 characters''
                    (Some [(''actualLength'', Num (int (length scr)))])
                else if targetApp \<notin> set ALLOWED_APPS then
                  SecurityError (''Application "'' @ targetApp @ ''" is not in the allowed list'')
                    (Some [(''app'', Str targetApp), (''allowedApps'', StrList ALLOWED_APPS)])
                else if \<not> (\<exists>declared \<in> set (matchAllTell scr).
                               toLowerCase declared = toLowerCase targetApp) then
                  SecurityError
                    (''Script does not target the declared application "'' @ targetApp @ ''"'')
                    (Some [(''app'', Str targetApp)])
                else
                  (case find ?occurs FORBIDDEN_PATTERNS of
                     Some first \<Rightarrow>
                       SecurityError (''Script contains forbidden pattern: "'' @ first @ ''"'')
                         (Some [(''pattern'', Str first), (''app'', Str targetApp)])
                   | None \<Rightarrow>
                       SecurityError ''Script must start with "tell application" statement''
                         (Some [(''app'', Str targetApp)])))\<close>
  proof cases
    case empty
    then show ?thesis by (simp add: validateScript_empty)
  next
    case long
    from validateScript_tooLong [OF long, of targetApp]
    have "validateScript scr targetApp =
            Inl (SecurityError ''Script exceeds maximum length of 50000 characters''
                  (Some [(''actualLength'', Num (int (length scr)))]))"
      by (simp add: maxLength_text)
    with long show ?thesis
      by (simp add: maxLength_def)
  next
    case app
    then have "\<not> isAllowedApp targetApp"
      by (simp add: isAllowedApp_def arrayIncludes_iff)
    with app show ?thesis
      using validateScript_notAllowed [of scr targetApp]
      by (simp add: maxLength_def)
  next
    case later
    then have l3: "isAllowedApp targetApp"
      by (simp add: isAllowedApp_def arrayIncludes_iff)
    from later have "targetApp \<noteq> []"
      by (auto simp: ALLOWED_APPS_def)
    then have "toLowerCase d = toLowerCase targetApp \<Longrightarrow> d \<noteq> []" for d
      by (auto simp: toLowerCase_def)
    then have tgt: "scriptTargetsApp scr targetApp \<longleftrightarrow>
        (\<exists>declared \<in> set (matchAllTell scr). toLowerCase declared = toLowerCase targetApp)"
      unfolding scriptTargetsApp_def anyMatchTargets_iff by blast
    show ?thesis
    proof (cases "scriptTargetsApp scr targetApp")
      case False
      with later l3 tgt show ?thesis
        using validateScript_mismatch [of scr targetApp]
        by (simp add: maxLength_def)
    next
      case True
      show ?thesis
      proof (cases "find ?occurs FORBIDDEN_PATTERNS")
        case None
        with ff have "findForbiddenPattern scr = None" by simp
        with later l3 True nostart
        have "validateScript scr targetApp =
                Inl (SecurityError ''Script must start with \"tell application\" statement''
                      (Some [(''app'', Str targetApp)]))"
          by (intro validateScript_noStart) simp_all
        with later tgt True None show ?thesis
          by (simp add: maxLength_def)
      next
        case (Some first)
        with ff have fnd: "findForbiddenPattern scr = Some first" by simp
        then have "firstIncluded (toLowerCase scr) FORBIDDEN_PATTERNS = Some first"
          by (simp add: findForbiddenPattern_def)
        from firstIncluded_Some_split [OF this] obtain earlier later' where
          "FORBIDDEN_PATTERNS = earlier @ first # later'" by blast
        moreover have "first \<in> set (earlier @ first # later')" by simp
        ultimately have "first \<in> set FORBIDDEN_PATTERNS" by (simp only:)
        with forbidden_patterns_nonempty have "first \<noteq> []" by auto
        with later l3 True fnd
        have "validateScript scr targetApp =
                Inl (SecurityError (''Script contains forbidden pattern: \"'' @ first @ ''\"'')
                      (Some [(''pattern'', Str first), (''app'', Str targetApp)]))"
          by (intro validateScript_forbidden) simp_all
        with later tgt True Some show ?thesis
          by (simp add: maxLength_def)
      qed
    qed
  qed
qed

lemma lateTell_facts:
  "\<not> startsWithTellApplication lateTell_script
   \<and> trim lateTell_script \<noteq> []
   \<and> matchAllTell lateTell_script = [''Notes'']
   \<and> findForbiddenPattern lateTell_script = None"
  unfolding lateTell_script_def by code_simp

lemma setx_facts:
  "\<not> startsWithTellApplication ''set x to 5''
   \<and> trim ''set x to 5'' \<noteq> []
   \<and> matchAllTell ''set x to 5'' = []"
  by code_simp

lemma blank_facts:
  "\<not> startsWithTellApplication ''   '' \<and> trim ''   '' = []"
  by code_simp

theorem structural_start_rejected_witness:
  \<open>\<not> startsWithTellApplication lateTell_script
   \<and> validateScript lateTell_script ''Notes'' =
       Inl (SecurityError ''Script must start with "tell application" statement''
             (Some [(''app'', Str ''Notes'')]))
   \<and> \<not> startsWithTellApplication ''set x to 5''
   \<and> validateScript ''set x to 5'' ''Reminders'' =
       Inl (SecurityError ''Script does not target the declared application "Reminders"''
             (Some [(''app'', Str ''Reminders'')]))
   \<and> \<not> startsWithTellApplication ''   ''
   \<and> validateScript ''   '' ''Reminders'' = Inl (SecurityError ''Script cannot be empty'' None)\<close>
proof -
  have a0: "\<not> startsWithTellApplication lateTell_script"
    using lateTell_facts by simp
  have a1: "find (\<lambda>p. stringIncludes (toLowerCase lateTell_script) (toLowerCase p))
              FORBIDDEN_PATTERNS = None"
    using lateTell_facts by (simp add: findForbiddenPattern_def firstIncluded_find)
  have a2: "length lateTell_script \<le> 50000"
    by (simp add: lateTell_script_def)
  have a3: "''Notes'' \<in> set ALLOWED_APPS" "''Reminders'' \<in> set ALLOWED_APPS"
    by (simp_all add: ALLOWED_APPS_def)
  have a: \<open>validateScript lateTell_script ''Notes'' =
       Inl (SecurityError ''Script must start with "tell application" statement''
             (Some [(''app'', Str ''Notes'')]))\<close>
    using structural_start_rejected [OF a0, of "''Notes''"] lateTell_facts a1 a2 a3
    by simp
  have b0: "\<not> startsWithTellApplication ''set x to 5''"
    using setx_facts by simp
  have b: \<open>validateScript ''set x to 5'' ''Reminders'' =
       Inl (SecurityError ''Script does not target the declared application "Reminders"''
             (Some [(''app'', Str ''Reminders'')]))\<close>
    using structural_start_rejected [OF b0, of "''Reminders''"] setx_facts a3
    by simp
  have c0: "\<not> startsWithTellApplication ''   ''"
    using blank_facts by simp
  have c: "validateScript ''   '' ''Reminders'' = Inl (SecurityError ''Script cannot be empty'' None)"
    using structural_start_rejected [OF c0, of "''Reminders''"] blank_facts
    by simp
  from a0 a b0 b c0 c show ?thesis by blast
qed

text \<open>
  The check looks at the prefix only. The script \<open>emptyName_script\<close> has the prefix and
  is accepted for Notes, although no complete opening clause (one with a name between
  the quotes) starts it; this is why the statement above is about the prefix.
\<close>

lemma emptyName_accepted:
  \<open>startsWithTellApplication emptyName_script
   \<and> execTellPattern (trim emptyName_script) = None
   \<and> validateScript emptyName_script ''Notes'' = Inr ()\<close>
proof -
  have a: "startsWithTellApplication emptyName_script
           \<and> execTellPattern (trim emptyName_script) = None
           \<and> trim emptyName_script \<noteq> []
           \<and> isAllowedApp ''Notes''
           \<and> scriptTargetsApp emptyName_script ''Notes''
           \<and> truthyString (findForbiddenPattern emptyName_script) = None"
    unfolding emptyName_script_def by code_simp
  moreover have "length emptyName_script \<le> maxLength"
    by (simp add: emptyName_script_def maxLength_def)
  ultimately show ?thesis
    by (simp add: validateScript_accepts_iff)
qed

text \<open>
  Claim C5 as stated fails: the script \<^verbatim>\<open>set x to 5\<close>, declared for Reminders, does not
  begin with an opening clause, and it is rejected by the self-consistency check
  with the app-mismatch message, not with the structural-start message.
\<close>

theorem structural_start_counterexample:
  \<open>\<not> startsWithTellApplication ''set x to 5''
   \<and> validateScript ''set x to 5'' ''Reminders'' =
       Inl (SecurityError ''Script does not target the declared application "Reminders"''
             (Some [(''app'', Str ''Reminders'')]))
   \<and> validateScript ''set x to 5'' ''Reminders'' \<noteq>
       Inl (SecurityError ''Script must start with "tell application" statement''
             (Some [(''app'', Str ''Reminders'')]))\<close>
proof -
  have s: "\<not> startsWithTellApplication ''set x to 5''" by code_simp
  from s rejected_ctx_validation show ?thesis by (simp add: SecurityError_def)
qed

section \<open>The execution wrapper: validation first\<close>

text \<open>
  Claim C2. On a request whose \<open>skipValidation\<close> flag is not set, \<open>executeScript\<close>
  validates before anything is handed to the engine: when \<open>validateScript\<close> throws,
  the caller receives that very error, and the list of scripts handed to the engine
  is unchanged; when it accepts, the script is handed to the engine.
\<close>

theorem validation_rejection_propagates:
  assumes "skipValidation ctx \<noteq> Some True"
  shows "(case validateScript (script ctx) (app ctx) of
            Inl e \<Rightarrow> executeScript h ctx spawned = (Inl e, spawned)
          | Inr accepted \<Rightarrow> snd (executeScript h ctx spawned) = spawned @ [script ctx])"
proof (cases "validateScript (script ctx) (app ctx)")
  case (Inl e)
  with assms executeScript_rejected show ?thesis by simp
next
  case (Inr u)
  then have "validateScript (script ctx) (app ctx) = Inr ()" by simp
  with executeScript_spawns [of ctx h spawned] Inr show ?thesis by simp
qed

theorem validation_rejection_propagates_witness:
  \<open>skipValidation rejected_ctx \<noteq> Some True
   \<and> executeScript idleHost rejected_ctx [] =
       (Inl (SecurityError ''Script does not target the declared application "Reminders"''
              (Some [(''app'', Str ''Reminders'')])), [])\<close>
proof -
  have h: "skipValidation rejected_ctx \<noteq> Some True"
    by (simp add: rejected_ctx_def)
  from validation_rejection_propagates [OF h, of idleHost "[]"] h rejected_ctx_validation
  show ?thesis by (simp add: rejected_ctx_def)
qed

section \<open>The execution wrapper: timeout\<close>

text \<open>
  Claim C6. When the engine is invoked (validation is skipped or accepts) and its
  promise is still pending when the timer fires, the caller receives the
  \<open>ExecutionTimeoutError\<close> built from the effective timeout: \<open>ctx.timeout\<close> when given,
  otherwise 30000. Its details carry that value under the key \<open>timeout\<close>, followed by
  the application and the operation. With a timeout of 5 the error carries 5.
\<close>

theorem timeout_error_carries_timeout:
  assumes "skipValidation ctx = Some True \<or> validateScript (script ctx) (app ctx) = Inr ()"
    and "runAppleScript h (script ctx) = Pending"
  shows "(let t = (case timeout ctx of Some ms \<Rightarrow> ms | None \<Rightarrow> 30000);
              err = ExecutionTimeoutError t
                      (Some [(''app'', Str (app ctx)), (''operation'', Str (operation ctx))])
          in executeScript h ctx spawned = (Inl err, spawned @ [script ctx])
             \<and> name err = ''ExecutionTimeoutError''
             \<and> message err = ''Script execution timed out after '' @ showNumber t @ ''ms''
             \<and> details err = Some [(''timeout'', Num t), (''app'', Str (app ctx)),
                                     (''operation'', Str (operation ctx))])"
proof -
  have det: "details (ExecutionTimeoutError t
                (Some [(''app'', Str a), (''operation'', Str b)]))
             = Some [(''timeout'', Num t), (''app'', Str a), (''operation'', Str b)]" for t a b
    by (simp add: ExecutionTimeoutError_def spread_def)
  from assms have "executeScript h ctx spawned =
      (Inl (ExecutionTimeoutError (case timeout ctx of Some ms \<Rightarrow> ms | None \<Rightarrow> 30000)
             (Some [(''app'', Str (app ctx)), (''operation'', Str (operation ctx))])),
       spawned @ [script ctx])"
    by (cases "timeout ctx")
       (auto simp: executeScript_def Let_def timeout_fn_def executeScript_catch_def
                   errorMessageOf_def timed_out_message DEFAULT_TIMEOUT_def)
  then show ?thesis
    by (simp add: Let_def det) (simp add: ExecutionTimeoutError_def)
qed

lemma scenarioD_validation: \<open>validateScript ''tell application "Notes"'' ''Notes'' = Inr ()\<close>
proof -
  have "trim ''tell application \"Notes\"'' \<noteq> []" by code_simp
  moreover have "isAllowedApp ''Notes''" by code_simp
  moreover have "scriptTargetsApp ''tell application \"Notes\"'' ''Notes''" by code_simp
  moreover have "truthyString (findForbiddenPattern ''tell application \"Notes\"'') = None" by code_simp
  moreover have "startsWithTellApplication ''tell application \"Notes\"''" by code_simp
  ultimately show ?thesis
    by (simp add: validateScript_accepts_iff maxLength_def)
qed

theorem timeout_error_carries_timeout_witness:
  \<open>executeScript hangingHost scenarioD_ctx [] =
     (Inl \<lparr>name = ''ExecutionTimeoutError'',
           message = ''Script execution timed out after 5ms'',
           code = ''EXECUTION_TIMEOUT'',
           details = Some [(''timeout'', Num 5), (''app'', Str ''Notes''),
                           (''operation'', Str ''list_notes'')]\<rparr>,
      [''tell application "Notes"''])\<close>
proof -
  have h1: "skipValidation scenarioD_ctx = Some True
            \<or> validateScript (script scenarioD_ctx) (app scenarioD_ctx) = Inr ()"
    by (simp add: scenarioD_ctx_def scenarioD_validation)
  have h2: "runAppleScript hangingHost (script scenarioD_ctx) = Pending"
    by (simp add: hangingHost_def)
  have five: "showNumber 5 = ''5''"
    by (simp add: showNumber_def showNat.simps digitChar_def)
  from timeout_error_carries_timeout [OF h1 h2, of "[]"]
  show ?thesis
    by (simp add: Let_def scenarioD_ctx_def ExecutionTimeoutError_def spread_def five)
qed

section \<open>The probe of isAppRunning\<close>

lemma isWhitespace_simps:
  "isWhitespace newline" "isWhitespace (CHR '' '')"
  "\<not> isWhitespace (CHR ''t'')" "\<not> isWhitespace (CHR ''l'')" "\<not> isWhitespace (CHR ''a'')"
  "\<not> isWhitespace dquote"
  by (simp_all add: isWhitespace_def)

lemma isAppRunningScript_eq:
  \<open>isAppRunningScript appName =
     ''tell application "System Events"\<newline>  return (name of processes) contains "''
       @ appName @ ''"\<newline>end tell''\<close>
  by (simp add: isAppRunningScript_def trim_def trimStart_def trimEnd_def isWhitespace_simps)

lemma trim_isAppRunningScript: "trim (isAppRunningScript appName) \<noteq> []"
  by (simp add: isAppRunningScript_eq trim_def trimStart_def trimEnd_def isWhitespace_simps)

lemma canonicalize_simps:
  "canonicalize (CHR ''t'') = CHR ''T''" "canonicalize (CHR ''e'') = CHR ''E''"
  "canonicalize (CHR ''l'') = CHR ''L''" "canonicalize (CHR ''a'') = CHR ''A''"
  "canonicalize (CHR ''p'') = CHR ''P''" "canonicalize (CHR ''i'') = CHR ''I''"
  "canonicalize (CHR ''c'') = CHR ''C''" "canonicalize (CHR ''o'') = CHR ''O''"
  "canonicalize (CHR ''n'') = CHR ''N''"
  by (simp_all add: canonicalize_def lowerCaseLetters_def upperCaseLetters_def)

lemma matchTellPrefix_systemEvents:
  \<open>matchTellPrefix (''tell application "'' @ r) = Some r\<close>
  by (simp add: matchTellPrefix_def canonicalize_simps isWhitespace_simps isQuote_def)

lemma execTellPattern_systemEvents:
  \<open>execTellPattern (''tell application "System Events"'' @ r) = Some (''System Events'', r)\<close>
proof -
  have "''tell application \"System Events\"'' @ r
        = ''tell application \"'' @ (''System Events\"'' @ r)" by simp
  then have "execTellPattern (''tell application \"System Events\"'' @ r)
             = matchName (''System Events\"'' @ r)"
    by (simp only: execTellPattern_def matchTellPrefix_systemEvents option.case)
  also have "\<dots> = Some (''System Events'', r)"
    by (simp add: matchName_def isQuote_def)
  finally show ?thesis .
qed

lemma matchAllTell_isAppRunningScript:
  "\<exists>rest. matchAllTell (isAppRunningScript appName) = ''System Events'' # rest"
proof -
  obtain r where r: "isAppRunningScript appName = ''tell application \"System Events\"'' @ r"
    by (simp add: isAppRunningScript_eq)
  have "''tell application \"System Events\"'' @ r
        = CHR ''t'' # (''ell application \"System Events\"'' @ r)" by simp
  moreover have "matchAllTell (CHR ''t'' # (''ell application \"System Events\"'' @ r))
        = ''System Events'' # matchAllTell r"
    using execTellPattern_systemEvents [of r] by (simp del: matchAllTell.simps add: matchAllTell.simps(2))
  ultimately show ?thesis using r by simp
qed

lemma startsWithTellApplication_isAppRunningScript:
  "startsWithTellApplication (isAppRunningScript appName)"
proof -
  have "trim (isAppRunningScript appName) = isAppRunningScript appName"
    by (simp add: isAppRunningScript_eq trim_def trimStart_def trimEnd_def isWhitespace_simps)
  moreover obtain r where "isAppRunningScript appName = ''tell application \"'' @ r"
    by (simp add: isAppRunningScript_eq)
  ultimately show ?thesis
    by (simp only: startsWithTellApplication_def matchTellPrefix_systemEvents) simp
qed

lemma findForbiddenPattern_isAppRunningScript:
  "findForbiddenPattern (isAppRunningScript appName) \<noteq> None"
proof -
  obtain r where "isAppRunningScript appName = ''tell application \"'' @ ''System Events'' @ r"
    by (simp add: isAppRunningScript_eq)
  then have "toLowerCase (isAppRunningScript appName)
      = toLowerCase ''tell application \"'' @ toLowerCase ''System Events'' @ toLowerCase r"
    by (simp only: toLowerCase_def map_append)
  then have "stringIncludes (toLowerCase (isAppRunningScript appName)) (toLowerCase ''System Events'')"
    by (simp only: stringIncludes_middle)
  moreover have "''System Events'' \<in> set FORBIDDEN_PATTERNS"
    by (simp add: FORBIDDEN_PATTERNS_def)
  ultimately show ?thesis
    unfolding findForbiddenPattern_def firstIncluded_None_iff by blast
qed

lemma validateScript_isAppRunningScript:
  "\<exists>e. validateScript (isAppRunningScript appName) ''System Events'' = Inl e"
proof (cases "length (isAppRunningScript appName) > maxLength")
  case True
  with validateScript_tooLong [OF trim_isAppRunningScript] show ?thesis by blast
next
  case False
  then have "length (isAppRunningScript appName) \<le> maxLength" by simp
  moreover have "\<not> isAllowedApp ''System Events''"
    by (simp add: isAllowedApp_def arrayIncludes_iff ALLOWED_APPS_def)
  ultimately show ?thesis
    using validateScript_notAllowed [OF trim_isAppRunningScript] by blast
qed

lemma isAppRunning_eq:
  "isAppRunning h appName spawned =
     ((case runAppleScript h (isAppRunningScript appName) of
         Fulfilled out \<Rightarrow> trim out = ''true''
       | Rejected e \<Rightarrow> False
       | Pending \<Rightarrow> False),
      spawned @ [isAppRunningScript appName])"
  by (cases "runAppleScript h (isAppRunningScript appName)")
     (simp_all add: isAppRunning_def executeScript_def timeout_fn_def)

text \<open>
  Claim C9. For every application name, the probe script of \<open>isAppRunning\<close> begins
  with the opening clause for System Events, and that is its first target. System
  Events is not in \<open>ALLOWED_APPS\<close> and is itself in \<open>FORBIDDEN_PATTERNS\<close>, so
  \<open>validateScript\<close> rejects the probe declared for System Events, and the
  forbidden-pattern scan alone would find a pattern in it. \<open>isAppRunning\<close> sets
  \<open>skipValidation\<close>: the probe is handed to the engine all the same, and the result
  is a boolean in every case, true exactly when the engine's output trims to
  \<open>true\<close> and false when the engine fails or does not answer in time.
\<close>

theorem isAppRunning_bypasses_validation:
  "(\<exists>rest. matchAllTell (isAppRunningScript appName) = ''System Events'' # rest)
   \<and> startsWithTellApplication (isAppRunningScript appName)
   \<and> ''System Events'' \<notin> set ALLOWED_APPS
   \<and> ''System Events'' \<in> set FORBIDDEN_PATTERNS
   \<and> (\<exists>e. validateScript (isAppRunningScript appName) ''System Events'' = Inl e)
   \<and> findForbiddenPattern (isAppRunningScript appName) \<noteq> None
   \<and> isAppRunning h appName spawned =
       ((case runAppleScript h (isAppRunningScript appName) of
           Fulfilled out \<Rightarrow> trim out = ''true''
         | Rejected e \<Rightarrow> False
         | Pending \<Rightarrow> False),
        spawned @ [isAppRunningScript appName])"
proof -
  have "''System Events'' \<notin> set ALLOWED_APPS"
    by (simp add: ALLOWED_APPS_def)
  moreover have "''System Events'' \<in> set FORBIDDEN_PATTERNS"
    by (simp add: FORBIDDEN_PATTERNS_def)
  ultimately show ?thesis
    using matchAllTell_isAppRunningScript startsWithTellApplication_isAppRunningScript
      validateScript_isAppRunningScript findForbiddenPattern_isAppRunningScript
      isAppRunning_eq
    by blast
qed

theorem isAppRunning_bypasses_validation_witness:
  \<open>isAppRunningScript ''Safari'' =
     ''tell application "System Events"\<newline>  return (name of processes) contains "Safari"\<newline>end tell''
   \<and> (\<exists>e. validateScript (isAppRunningScript ''Safari'') ''System Events'' = Inl e)
   \<and> isAppRunning failingHost ''Safari'' [] = (False, [isAppRunningScript ''Safari''])
   \<and> isAppRunning hangingHost ''Safari'' [] = (False, [isAppRunningScript ''Safari''])\<close>
  using isAppRunning_bypasses_validation [of "''Safari''" failingHost "[]"]
    isAppRunning_bypasses_validation [of "''Safari''" hangingHost "[]"]
  by (simp add: isAppRunningScript_eq failingHost_def hangingHost_def)

section \<open>The Notes generator and newlines\<close>

lemma escapeAppleScriptString_keeps_newlines:
  "filter (\<lambda>c. c = newline) (escapeAppleScriptString s) = filter (\<lambda>c. c = newline) s"
  by (induction s) (simp_all add: escapeAppleScriptString_Cons escapeEach_def, simp add: escapeAppleScriptString_def)

text \<open>
  Claim C8 says that the escaping applied to a note's body turns each newline into
  backslash-n. The generator escapes the body with \<open>escapeAppleScriptString\<close>, which
  leaves a newline as it is: for the body \<^verbatim>\<open>Line 1\<close>, newline, \<^verbatim>\<open>Line 2\<close> the generated
  script holds the raw newline inside the string literal, while
  \<open>sanitizeForAppleScript\<close> on the same text gives backslash-n.
\<close>

theorem notes_body_newline_unescaped:
  \<open>escapeAppleScriptString ''Line 1\<newline>Line 2'' = ''Line 1\<newline>Line 2''
   \<and> sanitizeForAppleScript ''Line 1\<newline>Line 2'' = ''Line 1'' @ [backslash, CHR ''n''] @ ''Line 2''
   \<and> generateCreateNoteScript multiline_note =
       ''tell application "Notes"\<newline>    set targetFolder to folder "Notes"\<newline>    set newNote to make new note at targetFolder with properties {body:"<h1>Plan</h1><div>Line 1\<newline>Line 2</div>"}\<newline>    return id of newNote & "|" & name of newNote & "|" & name of targetFolder\<newline>end tell''\<close>
proof -
  have a: "escapeAppleScriptString ''Line 1\<newline>Line 2'' = ''Line 1\<newline>Line 2''"
    by (simp add: escapeAppleScriptString_def)
  have b: "sanitizeForAppleScript ''Line 1\<newline>Line 2'' = ''Line 1'' @ [backslash, CHR ''n''] @ ''Line 2''"
    by (simp add: sanitizeForAppleScript_def)
  have c: \<open>generateCreateNoteScript multiline_note =
       ''tell application "Notes"\<newline>    set targetFolder to folder "Notes"\<newline>    set newNote to make new note at targetFolder with properties {body:"<h1>Plan</h1><div>Line 1\<newline>Line 2</div>"}\<newline>    return id of newNote & "|" & name of newNote & "|" & name of targetFolder\<newline>end tell''\<close>
    unfolding multiline_note_def by code_simp
  from a b c show ?thesis by blast
qed

end
